theory Spec2Isabelle
  imports Main "HOL-Library.Word"
begin

section \<open>The exec-interception shim of universal\_router.c\<close>

text \<open>
  The shim overrides \<open>execve\<close>, \<open>execvp\<close>, \<open>system\<close> and \<open>popen\<close>. When the variable
  \<open>SANDBOX_ROUTE_TO_CONTEXT\<close> is present it sends the request to a daemon over a Unix
  socket and exits with the daemon's answer; otherwise, or when the daemon cannot be
  reached, it calls a real primitive found with \<open>dlsym\<close>.

  A C string is the list of its bytes before the terminating NUL. A NULL-terminated
  vector (\<open>argv\<close>, \<open>envp\<close>, \<open>environ\<close>) is the list of its entries before the NULL; a
  vector pointer that may itself be NULL is an \<open>option\<close>.
\<close>

subsection \<open>C library functions the shim calls\<close>

abbreviation LF :: char where "LF \<equiv> CHR 0x0A"
abbreviation NUL :: char where "NUL \<equiv> CHR 0x00"

text \<open>
  \<open>strncmp(s, t, n)\<close>: compares at most \<open>n\<close> bytes as unsigned chars and stops after a
  NUL; the end of a list is the NUL of the C string.
\<close>

fun strncmp :: "string \<Rightarrow> string \<Rightarrow> nat \<Rightarrow> int" where
  "strncmp s t 0 = 0"
| "strncmp [] [] (Suc n) = 0"
| "strncmp [] (b # t) (Suc n) = - int (of_char b)"
| "strncmp (a # s) [] (Suc n) = int (of_char a)"
| "strncmp (a # s) (b # t) (Suc n) =
     (if a = b then strncmp s t n else int (of_char a) - int (of_char b))"

text \<open>The process state the shim reads and writes: the global \<open>environ\<close>.\<close>

record proc =
  environ :: "string list"

text \<open>
  \<open>getenv(name)\<close>: the value of the first entry of \<open>environ\<close> of the form
  \<open>name=value\<close>, NULL when there is none.
\<close>

fun getenv_in :: "string list \<Rightarrow> string \<Rightarrow> string option" where
  "getenv_in [] name = None"
| "getenv_in (e # es) name =
     (if take (length name + 1) e = name @ ''='' then Some (drop (length name + 1) e)
      else getenv_in es name)"

definition getenv :: "proc \<Rightarrow> string \<Rightarrow> string option" where
  "getenv s name = getenv_in (environ s) name"

text \<open>
  \<open>strtok(s, ":")\<close> with the single delimiter \<open>d\<close>: skips leading delimiters, returns
  NULL at the end of the string, otherwise the token up to the next delimiter and the
  position after that delimiter, from which \<open>strtok(NULL, ":")\<close> continues.
\<close>

definition strtok :: "char \<Rightarrow> string \<Rightarrow> (string \<times> string) option" where
  "strtok d s =
     (let s' = dropWhile (\<lambda>c. c = d) s
      in if s' = [] then None
         else Some (takeWhile (\<lambda>c. c \<noteq> d) s', drop 1 (dropWhile (\<lambda>c. c \<noteq> d) s')))"

text \<open>
  \<open>atoi\<close>, as glibc defines it: \<open>(int) strtol(nptr, NULL, 10)\<close>. \<open>strtol\<close> skips white
  space, reads an optional sign and the longest run of decimal digits (none gives 0),
  and saturates at the bounds of a 64-bit \<open>long\<close>; the cast keeps the low 32 bits.
\<close>

definition isspace :: "char \<Rightarrow> bool" where
  "isspace c = (c = CHR '' '' \<or> (9::nat) \<le> of_char c \<and> (of_char c :: nat) \<le> 13)"

definition isdigit :: "char \<Rightarrow> bool" where
  "isdigit c = ((48::nat) \<le> of_char c \<and> (of_char c :: nat) \<le> 57)"

definition digit_val :: "char \<Rightarrow> int" where
  "digit_val c = int (of_char c) - 48"

fun strtol_digits :: "int \<Rightarrow> string \<Rightarrow> int" where
  "strtol_digits acc [] = acc"
| "strtol_digits acc (c # cs) =
     (if isdigit c then strtol_digits (acc * 10 + digit_val c) cs else acc)"

definition LONG_MAX :: int where "LONG_MAX = 2 ^ 63 - 1"
definition LONG_MIN :: int where "LONG_MIN = - (2 ^ 63)"

definition strtol :: "string \<Rightarrow> int" where
  "strtol s =
     (let s1 = dropWhile isspace s;
          neg = (take 1 s1 = ''-'');
          s2 = (if take 1 s1 = ''-'' \<or> take 1 s1 = ''+'' then drop 1 s1 else s1);
          v = strtol_digits 0 s2
      in if neg then max LONG_MIN (- v) else min LONG_MAX v)"

definition atoi :: "string \<Rightarrow> int" where
  "atoi s = sint (word_of_int (strtol s) :: 32 word)"

text \<open>The C string held by a buffer: its bytes before the first NUL.\<close>

definition c_str :: "string \<Rightarrow> string" where
  "c_str buf = takeWhile (\<lambda>c. c \<noteq> NUL) buf"

subsection \<open>The world outside the shim\<close>

text \<open>
  What a call does to its caller: it returns a value and leaves an \<open>errno\<close>, or the
  process image is replaced by a program (a successful exec), or the process exits with
  the status given to \<open>exit\<close>.
\<close>

datatype 'r outcome =
    Returned 'r int
  | Replaced string "string list option" "string list option"
  | Exited int

type_synonym file_ptr = "nat option"

text \<open>
  The real primitives resolved by \<open>init\<close>, the socket calls and \<open>access\<close> are parameters.
  \<open>real_execvp\<close>, \<open>real_system\<close> and \<open>real_popen\<close> read the global \<open>environ\<close>, so they
  take the process state; \<open>real_popen\<close> returns to its caller, so it also hands the
  state back. \<open>sys_socket\<close> and \<open>sys_connect\<close> are the values returned by \<open>socket\<close> and
  by \<open>connect\<close> to \<open>/tmp/sandbox_router.sock\<close>. \<open>daemon_reply\<close> gives, for the bytes
  written to the socket, the bytes waiting to be read (\<open>None\<close>: the read fails).
\<close>

record world =
  real_execve :: "string \<Rightarrow> string list option \<Rightarrow> string list option \<Rightarrow> int outcome"
  real_execvp :: "proc \<Rightarrow> string \<Rightarrow> string list option \<Rightarrow> int outcome"
  real_system :: "proc \<Rightarrow> string option \<Rightarrow> int outcome"
  real_popen :: "proc \<Rightarrow> string \<Rightarrow> string \<Rightarrow> file_ptr outcome \<times> proc"
  sys_socket :: int
  sys_connect :: int
  daemon_reply :: "string \<Rightarrow> string option"
  sys_access :: "string \<Rightarrow> int"

text \<open>\<open>read(sock, buf, count)\<close>: the number of bytes read (\<open>-1\<close> on error) and the bytes.\<close>

definition sys_read :: "world \<Rightarrow> string \<Rightarrow> nat \<Rightarrow> int \<times> string" where
  "sys_read w req count =
     (case daemon_reply w req of
        None \<Rightarrow> (- 1, [])
      | Some bs \<Rightarrow> (int (length (take count bs)), take count bs))"

subsection \<open>The shim\<close>

definition should_route :: "proc \<Rightarrow> bool" where
  "should_route s = (getenv s ''SANDBOX_ROUTE_TO_CONTEXT'' \<noteq> None)"

text \<open>The test guarding \<open>dprintf(sock, "ENV:%s\n", envp[i])\<close> and the copy in \<open>popen\<close>.\<close>

definition env_kept :: "string \<Rightarrow> bool" where
  "env_kept e =
     (strncmp e ''SANDBOX_ROUTE_TO_CONTEXT='' 26 \<noteq> 0 \<and> strncmp e ''LD_PRELOAD='' 11 \<noteq> 0)"

text \<open>The two \<open>for\<close> loops of \<open>route_to_context\<close>, as the bytes they write.\<close>

fun send_args :: "string list \<Rightarrow> string" where
  "send_args [] = []"
| "send_args (a # as) = ''ARG:'' @ a @ [LF] @ send_args as"

fun send_env :: "string list \<Rightarrow> string" where
  "send_env [] = []"
| "send_env (e # es) = (if env_kept e then ''ENV:'' @ e @ [LF] else []) @ send_env es"

text \<open>Everything \<open>route_to_context\<close> writes to the socket, in the order of its \<open>dprintf\<close>s.\<close>

definition request :: "string \<Rightarrow> string \<Rightarrow> string list option \<Rightarrow> string list option \<Rightarrow> string" where
  "request target pathname argv envp =
     ''ROUTE'' @ [LF] @
     ''CONTEXT:'' @ target @ [LF] @
     ''CMD:'' @ pathname @ [LF] @
     (case argv of None \<Rightarrow> [] | Some as \<Rightarrow> send_args as) @
     (case envp of None \<Rightarrow> [] | Some es \<Rightarrow> send_env es) @
     ''END'' @ [LF]"

text \<open>
  The result of an intercepted call: the bytes written to the daemon socket (\<open>None\<close>
  when no connection was made) and what the call does to the caller.
\<close>

record 'r call =
  sent :: "string option"
  outcome :: "'r outcome"

text \<open>
  \<open>route_to_context\<close>, branch by branch. Every \<open>dprintf\<close> is taken to write its whole
  line; \<open>close\<close> changes nothing the caller can see and is left out. \<open>result[n] = 0\<close>
  followed by \<open>atoi(result)\<close> reads the C string held by the first \<open>n\<close> bytes, and
  \<open>exit(exit_code)\<close> is the outcome \<open>Exited exit_code\<close>.
\<close>

definition route_to_context ::
  "world \<Rightarrow> proc \<Rightarrow> string \<Rightarrow> string list option \<Rightarrow> string list option \<Rightarrow> int call" where
  "route_to_context w s pathname argv envp =
     (case getenv s ''SANDBOX_ROUTE_TO_CONTEXT'' of
        None \<Rightarrow> \<lparr>sent = None, outcome = real_execve w pathname argv envp\<rparr>
      | Some target \<Rightarrow>
          if sys_socket w < 0 then
            \<lparr>sent = None, outcome = real_execve w pathname argv envp\<rparr>
          else if sys_connect w < 0 then
            \<lparr>sent = None, outcome = real_execve w pathname argv envp\<rparr>
          else
            let req = request target pathname argv envp;
                (n, result) = sys_read w req 31
            in if n > 0 then
                 \<lparr>sent = Some req, outcome = Exited (atoi (c_str (take (nat n) result)))\<rparr>
               else
                 \<lparr>sent = Some req, outcome = real_execve w pathname argv envp\<rparr>)"

definition execve ::
  "world \<Rightarrow> proc \<Rightarrow> string \<Rightarrow> string list option \<Rightarrow> string list option \<Rightarrow> int call" where
  "execve w s pathname argv envp =
     (if should_route s then route_to_context w s pathname argv envp
      else \<lparr>sent = None, outcome = real_execve w pathname argv envp\<rparr>)"

text \<open>\<open>snprintf(fullpath, sizeof(fullpath), "%s/%s", dir, file)\<close> with \<open>char fullpath[4096]\<close>.\<close>

definition fullpath :: "string \<Rightarrow> string \<Rightarrow> string" where
  "fullpath dir file = take 4095 (dir @ ''/'' @ file)"

text \<open>
  The \<open>while (dir)\<close> loop of \<open>execvp\<close> over the rest of the PATH copy (\<open>strdup\<close> is
  taken to succeed): the first \<open>fullpath\<close> that \<open>access(_, X_OK)\<close> accepts, or nothing
  when \<open>strtok\<close> runs out of tokens.
\<close>

function path_search :: "world \<Rightarrow> string \<Rightarrow> string \<Rightarrow> string option" where
  "path_search w file rest =
     (case strtok (CHR '':'') rest of
        None \<Rightarrow> None
      | Some (dir, rest') \<Rightarrow>
          if sys_access w (fullpath dir file) = 0 then Some (fullpath dir file)
          else path_search w file rest')"
  by pat_completeness auto

lemma strtok_shorter:
  assumes "strtok d s = Some (tok, rest)"
  shows "length rest < length s"
proof -
  let ?s' = "dropWhile (\<lambda>c. c = d) s"
  from assms have ne: "?s' \<noteq> []" and r: "rest = drop 1 (dropWhile (\<lambda>c. c \<noteq> d) ?s')"
    by (auto simp: strtok_def Let_def split: if_splits)
  have "length rest \<le> length ?s' - 1"
    using r length_dropWhile_le [of "\<lambda>c. c \<noteq> d" ?s'] by simp
  moreover have "0 < length ?s'" using ne by simp
  moreover have "length ?s' \<le> length s" by (rule length_dropWhile_le)
  ultimately show ?thesis by linarith
qed

termination path_search
  by (relation "measure (\<lambda>(w, file, rest). length rest)") (auto dest: strtok_shorter)

text \<open>\<open>char *path = getenv("PATH"); if (!path) path = "/usr/bin:/bin";\<close>\<close>

definition search_path :: "proc \<Rightarrow> string" where
  "search_path s = (case getenv s ''PATH'' of None \<Rightarrow> ''/usr/bin:/bin'' | Some p \<Rightarrow> p)"

definition execvp :: "world \<Rightarrow> proc \<Rightarrow> string \<Rightarrow> string list option \<Rightarrow> int call" where
  "execvp w s file argv =
     (if should_route s then
        let path = search_path s
        in case path_search w file path of
             Some found \<Rightarrow> route_to_context w s found argv (Some (environ s))
           | None \<Rightarrow> route_to_context w s file argv (Some (environ s))
      else \<lparr>sent = None, outcome = real_execvp w s file argv\<rparr>)"

text \<open>
  The entries of a pointer array before its first NULL, as the loop over \<open>argv[i]\<close>
  sees the array \<open>{"sh", "-c", command, NULL}\<close> of \<open>system\<close>.
\<close>

fun nt_vector :: "string option list \<Rightarrow> string list" where
  "nt_vector [] = []"
| "nt_vector (None # ps) = []"
| "nt_vector (Some a # ps) = a # nt_vector ps"

definition system :: "world \<Rightarrow> proc \<Rightarrow> string option \<Rightarrow> int call" where
  "system w s command =
     (if should_route s then
        route_to_context w s ''/bin/sh''
          (Some (nt_vector [Some ''sh'', Some ''-c'', command, None])) (Some (environ s))
      else \<lparr>sent = None, outcome = real_system w s command\<rparr>)"

text \<open>
  The copying loop of \<open>popen\<close>, \<open>for (i = 0; environ[i] && j < 1023; i++)\<close>: \<open>j\<close> is
  the number of entries already stored in \<open>filtered_env\<close>, the list is what is left of
  \<open>environ\<close> from index \<open>i\<close>, the result is what the loop still stores.
\<close>

fun popen_filter :: "nat \<Rightarrow> string list \<Rightarrow> string list" where
  "popen_filter j [] = []"
| "popen_filter j (e # es) =
     (if j < 1023 then
        (if env_kept e then e # popen_filter (j + 1) es else popen_filter j es)
      else [])"

text \<open>
  \<open>popen\<close> returns the state as well: under routing it assigns \<open>environ\<close> twice around
  the call of the real \<open>popen\<close>.
\<close>

definition popen :: "world \<Rightarrow> proc \<Rightarrow> string \<Rightarrow> string \<Rightarrow> file_ptr outcome \<times> proc" where
  "popen w s command type =
     (if should_route s then
        let filtered_env = popen_filter 0 (environ s);
            old_environ = environ s;
            s1 = s\<lparr>environ := filtered_env\<rparr>;
            (result, s2) = real_popen w s1 command type
        in (result, s2\<lparr>environ := old_environ\<rparr>)
      else real_popen w s command type)"

subsection \<open>The request as lines\<close>

text \<open>
  The wire format in the words of the protocol description: a list of lines, each
  written with a terminating newline.
\<close>

definition write_lines :: "string list \<Rightarrow> string" where
  "write_lines ls = concat (map (\<lambda>l. l @ [LF]) ls)"

definition spec_request_lines ::
  "string \<Rightarrow> string \<Rightarrow> string list option \<Rightarrow> string list option \<Rightarrow> string list" where
  "spec_request_lines target pathname argv envp =
     [''ROUTE'', ''CONTEXT:'' @ target, ''CMD:'' @ pathname] @
     map (\<lambda>a. ''ARG:'' @ a) (case argv of None \<Rightarrow> [] | Some as \<Rightarrow> as) @
     map (\<lambda>e. ''ENV:'' @ e) (filter env_kept (case envp of None \<Rightarrow> [] | Some es \<Rightarrow> es)) @
     [''END'']"

text \<open>
  The directories the loop of \<open>execvp\<close> visits, in order: the tokens that successive
  calls of \<open>strtok\<close> cut out of the PATH copy.
\<close>

function path_dirs :: "string \<Rightarrow> string list" where
  "path_dirs rest =
     (case strtok (CHR '':'') rest of
        None \<Rightarrow> []
      | Some (dir, rest') \<Rightarrow> dir # path_dirs rest')"
  by pat_completeness auto
termination
  by (relation "measure length") (auto dest: strtok_shorter)

text \<open>
  The reading of a reply in the words of the protocol: the base-10 value of a string of
  digits, and whether a string begins (after white space and an optional sign) with a
  digit at all.
\<close>

fun dec_value :: "string \<Rightarrow> int" where
  "dec_value [] = 0"
| "dec_value (c # cs) = digit_val c * 10 ^ length cs + dec_value cs"

definition starts_number :: "string \<Rightarrow> bool" where
  "starts_number r =
     (let s1 = dropWhile isspace r;
          s2 = (if take 1 s1 = ''-'' \<or> take 1 s1 = ''+'' then drop 1 s1 else s1)
      in case s2 of [] \<Rightarrow> False | c # cs \<Rightarrow> isdigit c)"

subsection \<open>A small world to run the shim in\<close>

text \<open>
  Four programs exist and are executable: \<open>/bin/sh\<close>, \<open>/usr/bin/ls\<close>,
  \<open>/opt/bin/tool\<close> and \<open>prog\<close> in the current directory. The real \<open>execve\<close> replaces the process when the path names
  one of them and fails with \<open>ENOENT\<close> (2) otherwise; the real \<open>execvp\<close> takes a name
  with a slash as a path and looks a bare name up in PATH; the real \<open>system\<close> returns
  the status 0 of the command; the real \<open>popen\<close> returns a stream. \<open>socket\<close> succeeds;
  the result of \<open>connect\<close> and the daemon's answer are given.
\<close>

definition demo_programs :: "string list" where
  "demo_programs = [''/bin/sh'', ''/usr/bin/ls'', ''/opt/bin/tool'', ''prog'']"

definition demo_world :: "int \<Rightarrow> string option \<Rightarrow> world" where
  "demo_world conn reply =
     \<lparr>real_execve = (\<lambda>p a e. if p \<in> set demo_programs then Replaced p a e else Returned (- 1) 2),
      real_execvp = (\<lambda>s f a.
        if CHR ''/'' \<in> set f then
          (if f \<in> set demo_programs then Replaced f a (Some (environ s)) else Returned (- 1) 2)
        else
          (case find (\<lambda>d. d @ ''/'' @ f \<in> set demo_programs) (path_dirs (search_path s)) of
             Some d \<Rightarrow> Replaced (d @ ''/'' @ f) a (Some (environ s))
           | None \<Rightarrow> Returned (- 1) 2)),
      real_system = (\<lambda>s c. Returned 0 0),
      real_popen = (\<lambda>s c t. (Returned (Some 3) 0, s)),
      sys_socket = 3,
      sys_connect = conn,
      daemon_reply = (\<lambda>req. reply),
      sys_access = (\<lambda>p. if p \<in> set demo_programs then 0 else - 1)\<rparr>"

definition routed_proc :: proc where
  "routed_proc =
     \<lparr>environ = [''SANDBOX_ROUTE_TO_CONTEXT=contextA'', ''LD_PRELOAD=/lib/router.so'',
                 ''PATH=/usr/bin:/bin'', ''HOME=/root'']\<rparr>"

definition plain_proc :: proc where
  "plain_proc = \<lparr>environ = [''PATH=/usr/bin:/bin'', ''HOME=/root'']\<rparr>"

definition opt_proc :: proc where
  "opt_proc = \<lparr>environ = [''SANDBOX_ROUTE_TO_CONTEXT=contextA'', ''PATH=/usr/bin:/opt/bin'']\<rparr>"

definition slash_proc :: proc where
  "slash_proc = \<lparr>environ = [''SANDBOX_ROUTE_TO_CONTEXT=contextA'', ''PATH=/usr:/'']\<rparr>"

definition crowded_proc :: proc where
  "crowded_proc =
     \<lparr>environ = ''SANDBOX_ROUTE_TO_CONTEXT='' # replicate 1023 ''A=1'' @ [''Z=26'']\<rparr>"

subsection \<open>Facts about the library functions and the loops\<close>

lemma of_char_pos_iff: "(0 < (of_char c :: nat)) = (NUL \<noteq> c)"
proof -
  have "((of_char c :: nat) = of_char NUL) = (c = NUL)" by (simp only: of_char_eq_iff)
  then show ?thesis by auto
qed

lemma strncmp_prefix:
  "NUL \<notin> set t \<Longrightarrow> n = length t \<Longrightarrow> (strncmp s t n = 0) = (take n s = t)"
proof (induction t arbitrary: s n)
  case Nil
  then show ?case by simp
next
  case (Cons b t)
  then show ?case by (cases s) (auto simp: of_char_pos_iff)
qed

lemma strncmp_whole:
  "NUL \<notin> set t \<Longrightarrow> NUL \<notin> set s \<Longrightarrow> n = Suc (length t) \<Longrightarrow>
     (strncmp s t n = 0) = (s = t)"
proof (induction t arbitrary: s n)
  case Nil
  then show ?case by (cases s) (auto simp: of_char_pos_iff)
next
  case (Cons b t)
  then show ?case by (cases s) (auto simp: of_char_pos_iff)
qed

lemma env_kept_iff:
  assumes "NUL \<notin> set e"
  shows "env_kept e = (e \<noteq> ''SANDBOX_ROUTE_TO_CONTEXT='' \<and> take 11 e \<noteq> ''LD_PRELOAD='')"
proof -
  have a: "(strncmp e ''SANDBOX_ROUTE_TO_CONTEXT='' 26 = 0) = (e = ''SANDBOX_ROUTE_TO_CONTEXT='')"
    by (rule strncmp_whole) (use assms in simp_all)
  have b: "(strncmp e ''LD_PRELOAD='' 11 = 0) = (take 11 e = ''LD_PRELOAD='')"
    by (rule strncmp_prefix) simp_all
  show ?thesis by (simp only: env_kept_def a b)
qed

lemma ld_preload_dropped: "take 11 e = ''LD_PRELOAD='' \<Longrightarrow> \<not> env_kept e"
proof -
  assume "take 11 e = ''LD_PRELOAD=''"
  moreover have "(strncmp e ''LD_PRELOAD='' 11 = 0) = (take 11 e = ''LD_PRELOAD='')"
    by (rule strncmp_prefix) simp_all
  ultimately show ?thesis by (simp add: env_kept_def)
qed

lemma getenv_in_None:
  "(getenv_in es name = None) = (\<forall>e \<in> set es. take (length name + 1) e \<noteq> name @ ''='')"
  by (induction es) auto

lemma getenv_None:
  "(getenv s name = None) = (\<forall>e \<in> set (environ s). take (length name + 1) e \<noteq> name @ ''='')"
  by (simp add: getenv_def getenv_in_None)

lemma popen_filter_take:
  "j \<le> 1023 \<Longrightarrow> popen_filter j es = take (1023 - j) (filter env_kept es)"
proof (induction es arbitrary: j)
  case Nil
  show ?case by simp
next
  case (Cons e es)
  show ?case
  proof (cases "j < 1023")
    case True
    then have "Suc j \<le> 1023" by simp
    from Cons.IH [OF this] Cons.IH [OF Cons.prems] True show ?thesis
      by (simp add: take_Cons' Suc_diff_Suc)
  next
    case False
    then show ?thesis using Cons.prems by simp
  qed
qed

lemma popen_routed:
  "should_route s \<Longrightarrow>
     popen w s command type =
       (fst (real_popen w (s\<lparr>environ := popen_filter 0 (environ s)\<rparr>) command type), s)"
  by (simp add: popen_def Let_def split: prod.split)

lemma write_lines_append: "write_lines (xs @ ys) = write_lines xs @ write_lines ys"
  by (simp add: write_lines_def)

lemma send_args_lines: "send_args as = write_lines (map (\<lambda>a. ''ARG:'' @ a) as)"
  by (induction as) (simp_all add: write_lines_def)

lemma send_env_lines:
  "send_env es = write_lines (map (\<lambda>e. ''ENV:'' @ e) (filter env_kept es))"
  by (induction es) (simp_all add: write_lines_def)

lemma request_lines:
  "request target pathname argv envp =
     write_lines (spec_request_lines target pathname argv envp)"
  by (cases argv; cases envp)
     (simp_all add: request_def spec_request_lines_def write_lines_append send_args_lines
        send_env_lines, simp_all add: write_lines_def)

lemma sent_route_to_context:
  "sent (route_to_context w s pathname argv envp) =
     (case getenv s ''SANDBOX_ROUTE_TO_CONTEXT'' of
        None \<Rightarrow> None
      | Some target \<Rightarrow>
          if sys_socket w < 0 \<or> sys_connect w < 0 then None
          else Some (request target pathname argv envp))"
  by (simp add: route_to_context_def Let_def split: option.split prod.split)

lemma routed_proc_target: "getenv routed_proc ''SANDBOX_ROUTE_TO_CONTEXT'' = Some ''contextA''"
  by (simp add: getenv_def routed_proc_def)

lemma routed_proc_routes: "should_route routed_proc"
  by (simp add: should_route_def routed_proc_target)

lemma plain_proc_unset: "getenv plain_proc ''SANDBOX_ROUTE_TO_CONTEXT'' = None"
  by (simp add: getenv_def plain_proc_def)

lemma crowded_proc_routes: "should_route crowded_proc"
  by (simp add: should_route_def getenv_def crowded_proc_def)

lemma routed_proc_kept:
  "filter env_kept (environ routed_proc) =
     [''SANDBOX_ROUTE_TO_CONTEXT=contextA'', ''PATH=/usr/bin:/bin'', ''HOME=/root'']"
  by (simp add: routed_proc_def env_kept_iff)

lemma strtol_digits_value:
  "list_all isdigit cs \<Longrightarrow> strtol_digits acc cs = acc * 10 ^ length cs + dec_value cs"
  by (induction cs arbitrary: acc) (simp_all add: algebra_simps)

lemma dec_value_nonneg: "list_all isdigit cs \<Longrightarrow> 0 \<le> dec_value cs"
  by (induction cs) (auto simp: isdigit_def digit_val_def)

lemma strtol_digits_no_digit:
  "(case cs of [] \<Rightarrow> False | c # x \<Rightarrow> isdigit c) = False \<Longrightarrow> strtol_digits 0 cs = 0"
  by (cases cs) simp_all

lemma sint_32_small: "0 \<le> v \<Longrightarrow> v < 2 ^ 31 \<Longrightarrow> sint (word_of_int v :: 32 word) = v"
  by (simp add: sint_sbintrunc' signed_take_bit_int_eq_self)

lemma atoi_no_number: "\<not> starts_number r \<Longrightarrow> atoi r = 0"
  by (auto simp: starts_number_def atoi_def strtol_def Let_def LONG_MIN_def LONG_MAX_def
        strtol_digits_no_digit split: if_splits)

lemma digit_not_space: "isdigit c \<Longrightarrow> \<not> isspace c"
  by (auto simp: isdigit_def isspace_def)

lemma digit_not_sign: "isdigit c \<Longrightarrow> c \<noteq> CHR ''-'' \<and> c \<noteq> CHR ''+''"
  by (auto simp: isdigit_def)

lemma atoi_decimal:
  assumes "ds \<noteq> []" and "list_all isdigit ds" and "dec_value ds < 2 ^ 31"
  shows "atoi ds = dec_value ds"
proof -
  from assms obtain c cs where ds: "ds = c # cs" and c: "isdigit c" by (cases ds) auto
  have v: "strtol_digits 0 ds = dec_value ds" using assms(2) by (simp add: strtol_digits_value)
  have nn: "0 \<le> dec_value ds" using assms(2) by (rule dec_value_nonneg)
  have "dropWhile isspace ds = ds" using ds c by (simp add: digit_not_space)
  moreover have "take 1 ds \<noteq> ''-''" "take 1 ds \<noteq> ''+''"
    using ds digit_not_sign [OF c] by auto
  ultimately have "strtol ds = min LONG_MAX (dec_value ds)"
    by (simp only: strtol_def Let_def v if_False simp_thms)
  then have "strtol ds = dec_value ds" using assms(3) by (simp add: LONG_MAX_def)
  then show ?thesis using nn assms(3) by (simp add: atoi_def sint_32_small)
qed

lemma take_read_count: "take (min (length bs) n) bs = take n bs"
  by (cases "n \<le> length bs") (simp_all add: min_def)

lemma outcome_route_to_context:
  assumes "getenv s ''SANDBOX_ROUTE_TO_CONTEXT'' = Some target"
    and "0 \<le> sys_socket w" and "0 \<le> sys_connect w"
  shows "outcome (route_to_context w s pathname argv envp) =
     (case daemon_reply w (request target pathname argv envp) of
        None \<Rightarrow> real_execve w pathname argv envp
      | Some bs \<Rightarrow>
          if bs = [] then real_execve w pathname argv envp
          else Exited (atoi (c_str (take 31 bs))))"
  using assms
  by (simp add: route_to_context_def sys_read_def Let_def take_read_count split: option.split)

lemma outcome_route_to_context_down:
  assumes "sys_socket w < 0 \<or> sys_connect w < 0"
  shows "outcome (route_to_context w s pathname argv envp) = real_execve w pathname argv envp"
  using assms by (auto simp: route_to_context_def split: option.split)

lemma atoi_examples: "atoi ''0'' = 0" "atoi ''42'' = 42" "atoi ''abc'' = 0" "atoi '' -7x'' = - 7"
  by (simp_all add: atoi_def strtol_def isspace_def isdigit_def digit_val_def LONG_MAX_def LONG_MIN_def)

declare path_search.simps [simp del] path_dirs.simps [simp del]

lemma path_search_find:
  "path_search w f rest =
     map_option (\<lambda>dir. fullpath dir f)
       (find (\<lambda>dir. sys_access w (fullpath dir f) = 0) (path_dirs rest))"
proof (induction w f rest rule: path_search.induct)
  case (1 w f rest)
  show ?case
  proof (cases "strtok (CHR '':'') rest")
    case None
    then show ?thesis
      by (subst path_search.simps, subst path_dirs.simps) simp
  next
    case (Some tr)
    obtain dir rest' where tr: "tr = (dir, rest')" by (cases tr)
    show ?thesis
    proof (cases "sys_access w (fullpath dir f) = 0")
      case True
      then show ?thesis using Some tr
        by (subst path_search.simps, subst path_dirs.simps) simp
    next
      case False
      have "path_search w f rest' =
          map_option (\<lambda>dir. fullpath dir f)
            (find (\<lambda>dir. sys_access w (fullpath dir f) = 0) (path_dirs rest'))"
        by (rule "1.IH" [OF Some tr [symmetric] False])
      with False Some tr show ?thesis
        by (subst path_search.simps, subst path_dirs.simps) simp
    qed
  qed
qed

lemma find_first:
  "xs = before @ x # after \<Longrightarrow> \<forall>y \<in> set before. \<not> P y \<Longrightarrow> P x \<Longrightarrow> find P xs = Some x"
  by (induction before arbitrary: xs) auto

lemma find_none: "\<forall>y \<in> set xs. \<not> P y \<Longrightarrow> find P xs = None"
  by (simp add: find_None_iff)

lemma execvp_routed:
  "should_route s \<Longrightarrow>
     execvp w s file argv =
       route_to_context w s
         (case path_search w file (search_path s) of Some found \<Rightarrow> found | None \<Rightarrow> file)
         argv (Some (environ s))"
  by (simp add: execvp_def Let_def split: option.split)

lemma fullpath_fits: "length dir + length file < 4095 \<Longrightarrow> fullpath dir file = dir @ ''/'' @ file"
  by (simp add: fullpath_def)

lemma default_dirs: "path_dirs ''/usr/bin:/bin'' = [''/usr/bin'', ''/bin'']"
  by code_simp

lemma slash_dirs: "path_dirs ''/usr:/'' = [''/usr'', ''/'']"
  by code_simp

lemma routed_proc_path: "search_path routed_proc = ''/usr/bin:/bin''"
  by (simp add: search_path_def getenv_def routed_proc_def)

lemma slash_proc_path: "search_path slash_proc = ''/usr:/''"
  by (simp add: search_path_def getenv_def slash_proc_def)

lemma opt_dirs: "path_dirs ''/usr/bin:/opt/bin'' = [''/usr/bin'', ''/opt/bin'']"
  by code_simp

lemma opt_proc_target: "getenv opt_proc ''SANDBOX_ROUTE_TO_CONTEXT'' = Some ''contextA''"
  by (simp add: getenv_def opt_proc_def)

lemma opt_proc_path: "getenv opt_proc ''PATH'' = Some ''/usr/bin:/opt/bin''"
  by (simp add: getenv_def opt_proc_def)

lemma opt_proc_kept:
  "filter env_kept (environ opt_proc) =
     [''SANDBOX_ROUTE_TO_CONTEXT=contextA'', ''PATH=/usr/bin:/opt/bin'']"
  by (simp add: opt_proc_def env_kept_iff)

lemma search_path_set: "getenv s ''PATH'' = Some p \<Longrightarrow> search_path s = p"
  by (simp add: search_path_def)

lemma slash_proc_routes: "should_route slash_proc"
  by (simp add: should_route_def getenv_def slash_proc_def)

text \<open>
  \<open>path_dirs\<close> is the list of the non-empty pieces between colons: it ignores a colon
  at the front and otherwise cuts the piece before the next colon.
\<close>

lemma path_dirs_Nil: "path_dirs [] = []"
  by (subst path_dirs.simps) (simp add: strtok_def)

lemma path_dirs_colon: "path_dirs (CHR '':'' # p) = path_dirs p"
  by (subst path_dirs.simps, subst (2) path_dirs.simps) (simp add: strtok_def)

lemma path_dirs_drop:
  "q = [] \<or> hd q = CHR '':'' \<Longrightarrow> path_dirs (drop (Suc 0) q) = path_dirs q"
  by (cases q) (auto simp: path_dirs_colon)

lemma path_dirs_token:
  assumes "c \<noteq> CHR '':''"
  shows "path_dirs (c # p) =
       (c # takeWhile (\<lambda>c. c \<noteq> CHR '':'') p) # path_dirs (dropWhile (\<lambda>c. c \<noteq> CHR '':'') p)"
proof -
  let ?q = "dropWhile (\<lambda>c. c \<noteq> CHR '':'') p"
  have "?q = [] \<or> hd ?q = CHR '':''"
    using hd_dropWhile [of "\<lambda>c. c \<noteq> CHR '':''" p] by auto
  then have "path_dirs (drop (Suc 0) ?q) = path_dirs ?q" by (rule path_dirs_drop)
  with assms show ?thesis
    by (subst path_dirs.simps) (simp add: strtok_def)
qed

lemma path_dirs_skips_empty: "path_dirs ''::/usr/bin::/bin:'' = [''/usr/bin'', ''/bin'']"
  by code_simp

lemma demo_world_simps:
  "sys_socket (demo_world conn reply) = 3"
  "sys_connect (demo_world conn reply) = conn"
  "daemon_reply (demo_world conn reply) req = reply"
  "sys_access (demo_world conn reply) p = (if p \<in> set demo_programs then 0 else - 1)"
  "real_execve (demo_world conn reply) p a e =
     (if p \<in> set demo_programs then Replaced p a e else Returned (- 1) 2)"
  "real_system (demo_world conn reply) s c = Returned 0 0"
  "real_popen (demo_world conn reply) s cmd t = (Returned (Some 3) 0, s)"
  by (simp_all add: demo_world_def)

lemma demo_real_execvp:
  "real_execvp (demo_world conn reply) s f a =
     (if CHR ''/'' \<in> set f then
        (if f \<in> set demo_programs then Replaced f a (Some (environ s)) else Returned (- 1) 2)
      else
        (case find (\<lambda>d. d @ ''/'' @ f \<in> set demo_programs) (path_dirs (search_path s)) of
           Some d \<Rightarrow> Replaced (d @ ''/'' @ f) a (Some (environ s))
         | None \<Rightarrow> Returned (- 1) 2))"
  by (simp add: demo_world_def)

lemma system_routed:
  "should_route s \<Longrightarrow>
     system w s command =
       route_to_context w s ''/bin/sh''
         (Some (nt_vector [Some ''sh'', Some ''-c'', command, None])) (Some (environ s))"
  by (simp add: system_def)

lemma execve_routed:
  "should_route s \<Longrightarrow> execve w s pathname argv envp = route_to_context w s pathname argv envp"
  by (simp add: execve_def)

lemma should_route_target:
  "getenv s ''SANDBOX_ROUTE_TO_CONTEXT'' = Some target \<Longrightarrow> should_route s"
  by (simp add: should_route_def)

lemma outcome_route_to_context_fallback:
  assumes "sys_socket w < 0 \<or> sys_connect w < 0 \<or>
           (\<forall>req. daemon_reply w req = None \<or> daemon_reply w req = Some [])"
  shows "outcome (route_to_context w s pathname argv envp) = real_execve w pathname argv envp"
proof (cases "getenv s ''SANDBOX_ROUTE_TO_CONTEXT''")
  case None
  then show ?thesis by (simp add: route_to_context_def)
next
  case (Some target)
  show ?thesis
  proof (cases "sys_socket w < 0 \<or> sys_connect w < 0")
    case True
    then show ?thesis by (rule outcome_route_to_context_down)
  next
    case False
    with assms have "daemon_reply w (request target pathname argv envp) = None \<or>
        daemon_reply w (request target pathname argv envp) = Some []"
      by blast
    moreover from False have "0 \<le> sys_socket w" "0 \<le> sys_connect w" by simp_all
    ultimately show ?thesis
      by (auto simp: outcome_route_to_context [OF Some])
  qed
qed

subsection \<open>The claims\<close>

text \<open>
  C1. The filter compares 26 bytes of the entry with the 25-byte literal
  \<open>SANDBOX_ROUTE_TO_CONTEXT=\<close>, so the comparison includes the literal's NUL and only
  the entry with an empty value is dropped (\<open>env_kept_iff\<close>). With the variable set to
  \<open>contextA\<close>, the entry is sent to the daemon as an \<open>ENV:\<close> line and it stays in the
  environment a routed \<open>popen\<close> installs; \<open>LD_PRELOAD\<close> is dropped from both
  (\<open>ld_preload_dropped\<close>).
\<close>

theorem activation_variable_is_forwarded:
  "sent (execve (demo_world 0 (Some ''0'')) routed_proc ''/usr/bin/ls'' (Some [''ls''])
           (Some (environ routed_proc))) =
     Some (write_lines [''ROUTE'', ''CONTEXT:contextA'', ''CMD:/usr/bin/ls'', ''ARG:ls'',
       ''ENV:SANDBOX_ROUTE_TO_CONTEXT=contextA'', ''ENV:PATH=/usr/bin:/bin'',
       ''ENV:HOME=/root'', ''END'']) \<and>
   popen (demo_world 0 (Some ''0'')) routed_proc ''ls'' ''r'' =
     (fst (real_popen (demo_world 0 (Some ''0''))
        \<lparr>environ = [''SANDBOX_ROUTE_TO_CONTEXT=contextA'', ''PATH=/usr/bin:/bin'',
           ''HOME=/root'']\<rparr> ''ls'' ''r''), routed_proc)"
proof -
  have "popen_filter 0 (environ routed_proc) =
      [''SANDBOX_ROUTE_TO_CONTEXT=contextA'', ''PATH=/usr/bin:/bin'', ''HOME=/root'']"
    by (simp add: popen_filter_take routed_proc_kept)
  moreover have "request ''contextA'' ''/usr/bin/ls'' (Some [''ls'']) (Some (environ routed_proc)) =
      write_lines [''ROUTE'', ''CONTEXT:contextA'', ''CMD:/usr/bin/ls'', ''ARG:ls'',
       ''ENV:SANDBOX_ROUTE_TO_CONTEXT=contextA'', ''ENV:PATH=/usr/bin:/bin'',
       ''ENV:HOME=/root'', ''END'']"
    by (simp add: request_lines spec_request_lines_def routed_proc_kept)
  ultimately show ?thesis
    by (simp add: execve_def routed_proc_routes sent_route_to_context routed_proc_target
          popen_routed)
       (simp add: demo_world_def routed_proc_def)
qed

text \<open>
  C2, as stated, fails: with the variable set and the daemon refusing connections,
  \<open>system("echo hi")\<close> replaces the process by \<open>/bin/sh\<close>, where the real \<open>system\<close> (and
  the shim with the variable unset) returns the status 0; and \<open>execvp("prog", _)\<close> runs
  \<open>prog\<close> from the current directory, where the real \<open>execvp\<close> fails with \<open>ENOENT\<close>
  because \<open>prog\<close> is in no directory of PATH.
\<close>

theorem fallback_not_transparent:
  "outcome (system (demo_world (- 1) None) routed_proc (Some ''echo hi'')) =
     Replaced ''/bin/sh'' (Some [''sh'', ''-c'', ''echo hi'']) (Some (environ routed_proc)) \<and>
   real_system (demo_world (- 1) None) routed_proc (Some ''echo hi'') = Returned 0 0 \<and>
   outcome (system (demo_world (- 1) None) plain_proc (Some ''echo hi'')) = Returned 0 0 \<and>
   outcome (system (demo_world (- 1) None) routed_proc (Some ''echo hi'')) \<noteq>
     outcome (system (demo_world (- 1) None) plain_proc (Some ''echo hi'')) \<and>
   outcome (execvp (demo_world (- 1) None) routed_proc ''prog'' (Some [''prog''])) =
     Replaced ''prog'' (Some [''prog'']) (Some (environ routed_proc)) \<and>
   real_execvp (demo_world (- 1) None) routed_proc ''prog'' (Some [''prog'']) = Returned (- 1) 2 \<and>
   outcome (execvp (demo_world (- 1) None) plain_proc ''prog'' (Some [''prog''])) =
     Returned (- 1) 2"
proof -
  have p: "\<not> should_route plain_proc"
    by (simp add: should_route_def plain_proc_unset)
  have d: "sys_socket (demo_world (- 1) None) < 0 \<or> sys_connect (demo_world (- 1) None) < 0"
    by (simp add: demo_world_simps)
  have s1: "outcome (system (demo_world (- 1) None) routed_proc (Some ''echo hi'')) =
      Replaced ''/bin/sh'' (Some [''sh'', ''-c'', ''echo hi'']) (Some (environ routed_proc))"
    by (simp add: system_routed [OF routed_proc_routes] outcome_route_to_context_down [OF d]
          demo_world_simps demo_programs_def)
  have s2: "outcome (system (demo_world (- 1) None) plain_proc (Some ''echo hi'')) = Returned 0 0"
    using p by (simp add: system_def demo_world_simps)
  have f: "fullpath ''/usr/bin'' ''prog'' = ''/usr/bin/prog''" "fullpath ''/bin'' ''prog'' = ''/bin/prog''"
    by (simp_all add: fullpath_def)
  have e1: "outcome (execvp (demo_world (- 1) None) routed_proc ''prog'' (Some [''prog''])) =
      Replaced ''prog'' (Some [''prog'']) (Some (environ routed_proc))"
    by (simp add: execvp_routed [OF routed_proc_routes] outcome_route_to_context_down [OF d]
          path_search_find routed_proc_path default_dirs f demo_world_simps demo_programs_def)
  have pp: "search_path plain_proc = ''/usr/bin:/bin''"
    by (simp add: search_path_def getenv_def plain_proc_def)
  have e2: "real_execvp (demo_world (- 1) None) sp ''prog'' (Some [''prog'']) = Returned (- 1) 2"
    if "search_path sp = ''/usr/bin:/bin''" for sp
    using that by (simp add: demo_real_execvp default_dirs demo_programs_def)
  have e3: "outcome (execvp (demo_world (- 1) None) plain_proc ''prog'' (Some [''prog''])) =
      Returned (- 1) 2"
    using p by (simp add: execvp_def e2 [OF pp])
  show ?thesis
    by (simp add: s1 s2 e1 e2 [OF routed_proc_path] e3 demo_world_simps)
qed

text \<open>
  C2, amended. With the variable set and routing unable to complete (\<open>socket\<close> fails,
  \<open>connect\<close> fails, or the read gives no byte), every routed primitive ends in the real
  \<open>execve\<close> on the request it built: \<open>execve\<close> on the caller's own path, arguments and
  environment, which is what it does with the variable unset; \<open>execvp\<close> on the first
  PATH match (or the file as given) and the ambient environment; \<open>system\<close> on \<open>/bin/sh\<close>,
  \<open>sh -c command\<close> and the ambient environment. \<open>popen\<close> makes no routing attempt: it
  returns what the real \<open>popen\<close> returns under the filtered environment.
\<close>

theorem fallback_is_real_execve:
  assumes "should_route s"
    and "sys_socket w < 0 \<or> sys_connect w < 0 \<or>
         (\<forall>req. daemon_reply w req = None \<or> daemon_reply w req = Some [])"
  shows "outcome (execve w s pathname argv envp) = real_execve w pathname argv envp \<and>
         (\<forall>s'. \<not> should_route s' \<longrightarrow>
            outcome (execve w s pathname argv envp) = outcome (execve w s' pathname argv envp)) \<and>
         outcome (execvp w s file argv) =
           real_execve w
             (case find (\<lambda>dir. sys_access w (fullpath dir file) = 0) (path_dirs (search_path s)) of
                Some dir \<Rightarrow> fullpath dir file
              | None \<Rightarrow> file)
             argv (Some (environ s)) \<and>
         outcome (system w s command) =
           real_execve w ''/bin/sh'' (Some (nt_vector [Some ''sh'', Some ''-c'', command, None]))
             (Some (environ s)) \<and>
         popen w s cmd type =
           (fst (real_popen w (s\<lparr>environ := popen_filter 0 (environ s)\<rparr>) cmd type), s)"
proof -
  note fb = outcome_route_to_context_fallback [OF assms(2)]
  have "(case path_search w file (search_path s) of Some found \<Rightarrow> found | None \<Rightarrow> file) =
      (case find (\<lambda>dir. sys_access w (fullpath dir file) = 0) (path_dirs (search_path s)) of
         Some dir \<Rightarrow> fullpath dir file | None \<Rightarrow> file)"
    by (simp add: path_search_find split: option.split)
  then show ?thesis
    using assms(1)
    by (simp add: execve_routed execvp_routed system_routed popen_routed fb execve_def)
qed

theorem fallback_is_real_execve_witness:
  "outcome (execve (demo_world (- 1) None) routed_proc ''/usr/bin/ls'' (Some [''ls'']) None) =
     Replaced ''/usr/bin/ls'' (Some [''ls'']) None \<and>
   outcome (execve (demo_world (- 1) None) plain_proc ''/usr/bin/ls'' (Some [''ls'']) None) =
     Replaced ''/usr/bin/ls'' (Some [''ls'']) None \<and>
   outcome (execvp (demo_world (- 1) None) routed_proc ''ls'' (Some [''ls''])) =
     Replaced ''/usr/bin/ls'' (Some [''ls'']) (Some (environ routed_proc)) \<and>
   outcome (system (demo_world (- 1) None) routed_proc (Some ''echo hi'')) =
     Replaced ''/bin/sh'' (Some [''sh'', ''-c'', ''echo hi'']) (Some (environ routed_proc)) \<and>
   popen (demo_world (- 1) None) routed_proc ''ls'' ''r'' = (Returned (Some 3) 0, routed_proc)"
proof -
  have d: "sys_socket (demo_world (- 1) None) < 0 \<or> sys_connect (demo_world (- 1) None) < 0 \<or>
      (\<forall>req. daemon_reply (demo_world (- 1) None) req = None \<or>
         daemon_reply (demo_world (- 1) None) req = Some [])"
    by (simp add: demo_world_simps)
  have p: "\<not> should_route plain_proc"
    by (simp add: should_route_def plain_proc_unset)
  have f: "fullpath ''/usr/bin'' ''ls'' = ''/usr/bin/ls''"
    by (simp add: fullpath_def)
  note t = fallback_is_real_execve [OF routed_proc_routes d]
  from t [of "''/usr/bin/ls''" "Some [''ls'']" None "''ls''" "Some ''echo hi''" "''ls''" "''r''"] p
  show ?thesis
    by (auto simp: routed_proc_path default_dirs f demo_world_simps demo_programs_def)
qed

text \<open>
  C3. With the variable set and a connection made: when the read returns at least one
  byte, the call ends in \<open>exit(atoi(result))\<close> on the bytes read (at most 31, up to a
  NUL), so the caller never gets control back and the real \<open>execve\<close> is not called; the
  value is 0 when the bytes do not begin with a number, and the base-10 value of the
  bytes when they are digits (below \<open>2^31\<close>). When the read fails or returns no byte,
  the call is the real \<open>execve\<close> on the same path, arguments and environment. The
  status recorded is the argument of \<open>exit\<close>.
\<close>

theorem reply_is_exit_status:
  assumes "getenv s ''SANDBOX_ROUTE_TO_CONTEXT'' = Some target"
    and "0 \<le> sys_socket w" and "0 \<le> sys_connect w"
  shows "(\<forall>bs r. daemon_reply w (request target pathname argv envp) = Some bs \<and> bs \<noteq> [] \<and>
            r = c_str (take 31 bs) \<longrightarrow>
            outcome (route_to_context w s pathname argv envp) = Exited (atoi r) \<and>
            (\<not> starts_number r \<longrightarrow> atoi r = 0) \<and>
            (r \<noteq> [] \<and> list_all isdigit r \<and> dec_value r < 2 ^ 31 \<longrightarrow> atoi r = dec_value r)) \<and>
         (daemon_reply w (request target pathname argv envp) = None \<or>
          daemon_reply w (request target pathname argv envp) = Some [] \<longrightarrow>
            outcome (route_to_context w s pathname argv envp) = real_execve w pathname argv envp)"
  by (auto simp: outcome_route_to_context [OF assms] atoi_no_number atoi_decimal)

theorem reply_is_exit_status_witness:
  "outcome (route_to_context (demo_world 0 (Some ''42'')) routed_proc ''/usr/bin/ls'' (Some [''ls'']) None)
     = Exited 42 \<and>
   outcome (route_to_context (demo_world 0 (Some ''abc'')) routed_proc ''/usr/bin/ls'' (Some [''ls'']) None)
     = Exited 0 \<and>
   outcome (route_to_context (demo_world 0 (Some [])) routed_proc ''/usr/bin/ls'' (Some [''ls'']) None)
     = Replaced ''/usr/bin/ls'' (Some [''ls'']) None \<and>
   outcome (route_to_context (demo_world 0 None) routed_proc ''/usr/bin/ls'' (Some [''ls'']) None)
     = Replaced ''/usr/bin/ls'' (Some [''ls'']) None"
proof -
  have a: "0 \<le> sys_socket (demo_world 0 r)" "0 \<le> sys_connect (demo_world 0 r)" for r
    by (simp_all add: demo_world_def)
  note t = reply_is_exit_status [OF routed_proc_target a, where pathname = "''/usr/bin/ls''"
      and argv = "Some [''ls'']" and envp = None]
  have r: "daemon_reply (demo_world 0 r) q = r" for r q by (simp add: demo_world_def)
  have e: "real_execve (demo_world 0 r) ''/usr/bin/ls'' x y = Replaced ''/usr/bin/ls'' x y" for r x y
    by (simp add: demo_world_def demo_programs_def)
  show ?thesis
    using t [of "Some ''42''"] t [of "Some ''abc''"] t [of "Some []"] t [of None]
    by (simp add: r e c_str_def atoi_examples)
qed

text \<open>
  C4. With the variable set, \<open>system(command)\<close> is \<open>route_to_context\<close> on \<open>/bin/sh\<close> with
  the argument vector \<open>sh\<close>, \<open>-c\<close>, \<open>command\<close> and the ambient environment. Once connected,
  the request is \<open>ROUTE\<close>, \<open>CONTEXT:target\<close>, \<open>CMD:/bin/sh\<close>, \<open>ARG:sh\<close>, \<open>ARG:-c\<close>,
  \<open>ARG:command\<close>, the kept \<open>ENV:\<close> lines and \<open>END\<close>; a reply \<open>0\<close> makes the process exit
  with status 0. The witness is the scenario with \<open>contextA\<close> and \<open>echo hi\<close>.
\<close>

theorem system_wraps_command:
  assumes "getenv s ''SANDBOX_ROUTE_TO_CONTEXT'' = Some target"
  shows "system w s (Some command) =
           route_to_context w s ''/bin/sh'' (Some [''sh'', ''-c'', command]) (Some (environ s)) \<and>
         (0 \<le> sys_socket w \<and> 0 \<le> sys_connect w \<longrightarrow>
            sent (system w s (Some command)) =
              Some (write_lines
                ([''ROUTE'', ''CONTEXT:'' @ target, ''CMD:/bin/sh'', ''ARG:sh'', ''ARG:-c'',
                  ''ARG:'' @ command] @
                 map (\<lambda>e. ''ENV:'' @ e) (filter env_kept (environ s)) @ [''END''])) \<and>
            (daemon_reply w
               (request target ''/bin/sh'' (Some [''sh'', ''-c'', command]) (Some (environ s))) =
               Some ''0'' \<longrightarrow>
             outcome (system w s (Some command)) = Exited 0))"
proof -
  have r: "system w s (Some command) =
      route_to_context w s ''/bin/sh'' (Some [''sh'', ''-c'', command]) (Some (environ s))"
    using should_route_target [OF assms] by (simp add: system_routed)
  have l: "spec_request_lines target ''/bin/sh'' (Some [''sh'', ''-c'', command]) (Some (environ s)) =
      [''ROUTE'', ''CONTEXT:'' @ target, ''CMD:/bin/sh'', ''ARG:sh'', ''ARG:-c'', ''ARG:'' @ command] @
      map (\<lambda>e. ''ENV:'' @ e) (filter env_kept (environ s)) @ [''END'']"
    by (simp add: spec_request_lines_def)
  show ?thesis
    unfolding r
    by (auto simp: sent_route_to_context assms request_lines l outcome_route_to_context [OF assms]
          c_str_def atoi_examples)
qed

theorem system_wraps_command_witness:
  "sent (system (demo_world 0 (Some ''0'')) routed_proc (Some ''echo hi'')) =
     Some (write_lines [''ROUTE'', ''CONTEXT:contextA'', ''CMD:/bin/sh'', ''ARG:sh'', ''ARG:-c'',
       ''ARG:echo hi'', ''ENV:SANDBOX_ROUTE_TO_CONTEXT=contextA'', ''ENV:PATH=/usr/bin:/bin'',
       ''ENV:HOME=/root'', ''END'']) \<and>
   outcome (system (demo_world 0 (Some ''0'')) routed_proc (Some ''echo hi'')) = Exited 0"
  using system_wraps_command [OF routed_proc_target, of "demo_world 0 (Some ''0'')" "''echo hi''"]
  by (auto simp: routed_proc_kept demo_world_simps)

text \<open>
  C5. With the variable set and PATH set to \<open>p\<close>, when \<open>dir\<close> is the first directory
  listed in \<open>p\<close> (in the order of \<open>p\<close>, every earlier one failing the test) whose
  \<open>fullpath\<close> passes \<open>access(_, X_OK)\<close>, \<open>execvp\<close> routes under that path and the
  request's third line is \<open>CMD:\<close> followed by it; a file executable in exactly one
  directory is the case where no later directory passes either. When no directory of
  \<open>p\<close> passes, \<open>execvp\<close> still routes, under the name as given, and a routing failure
  ends in the real \<open>execve\<close> on that name. \<open>fullpath\<close> is \<open>dir/file\<close> itself whenever that
  fits the 4096-byte buffer.
\<close>

theorem execvp_first_match:
  assumes "getenv s ''SANDBOX_ROUTE_TO_CONTEXT'' = Some target"
    and "getenv s ''PATH'' = Some p"
  shows "(\<forall>before dir after.
            path_dirs p = before @ dir # after \<and>
            (\<forall>d \<in> set before. sys_access w (fullpath d file) \<noteq> 0) \<and>
            sys_access w (fullpath dir file) = 0 \<longrightarrow>
              execvp w s file argv =
                route_to_context w s (fullpath dir file) argv (Some (environ s)) \<and>
              (0 \<le> sys_socket w \<and> 0 \<le> sys_connect w \<longrightarrow>
                 sent (execvp w s file argv) =
                   Some (write_lines
                     (spec_request_lines target (fullpath dir file) argv (Some (environ s)))) \<and>
                 spec_request_lines target (fullpath dir file) argv (Some (environ s)) ! 2 =
                   ''CMD:'' @ fullpath dir file) \<and>
              (length dir + length file < 4095 \<longrightarrow> fullpath dir file = dir @ ''/'' @ file)) \<and>
         ((\<forall>d \<in> set (path_dirs p). sys_access w (fullpath d file) \<noteq> 0) \<longrightarrow>
            execvp w s file argv = route_to_context w s file argv (Some (environ s)) \<and>
            (0 \<le> sys_socket w \<and> 0 \<le> sys_connect w \<longrightarrow>
               sent (execvp w s file argv) =
                 Some (write_lines (spec_request_lines target file argv (Some (environ s))))) \<and>
            (sys_socket w < 0 \<or> sys_connect w < 0 \<or>
             (\<forall>req. daemon_reply w req = None \<or> daemon_reply w req = Some []) \<longrightarrow>
               outcome (execvp w s file argv) = real_execve w file argv (Some (environ s))))"
proof -
  note sr = should_route_target [OF assms(1)]
  note sp = search_path_set [OF assms(2)]
  have a: "execvp w s file argv = route_to_context w s (fullpath dir file) argv (Some (environ s))"
    if "path_dirs p = before @ dir # after"
      and "\<forall>d \<in> set before. sys_access w (fullpath d file) \<noteq> 0"
      and "sys_access w (fullpath dir file) = 0" for before dir after
  proof -
    have "find (\<lambda>d. sys_access w (fullpath d file) = 0) (path_dirs p) = Some dir"
      using that by (intro find_first [where before = before and after = after]) simp_all
    then show ?thesis by (simp add: execvp_routed [OF sr] path_search_find sp)
  qed
  have b: "execvp w s file argv = route_to_context w s file argv (Some (environ s))"
    if "\<forall>d \<in> set (path_dirs p). sys_access w (fullpath d file) \<noteq> 0"
  proof -
    have "find (\<lambda>d. sys_access w (fullpath d file) = 0) (path_dirs p) = None"
      using that by (intro find_none) simp
    then show ?thesis by (simp add: execvp_routed [OF sr] path_search_find sp)
  qed
  have c: "spec_request_lines target q argv e ! 2 = ''CMD:'' @ q" for q e
    by (simp add: spec_request_lines_def)
  show ?thesis
    by (auto simp: a b c sent_route_to_context assms(1) request_lines fullpath_fits
          outcome_route_to_context_fallback)
qed

theorem execvp_first_match_witness:
  "getenv opt_proc ''PATH'' = Some ''/usr/bin:/opt/bin'' \<and>
   path_dirs ''/usr/bin:/opt/bin'' = [''/usr/bin'', ''/opt/bin''] \<and>
   sys_access (demo_world 0 (Some ''0'')) ''/usr/bin/tool'' \<noteq> 0 \<and>
   sys_access (demo_world 0 (Some ''0'')) ''/opt/bin/tool'' = 0 \<and>
   execvp (demo_world 0 (Some ''0'')) opt_proc ''tool'' (Some [''tool'']) =
     route_to_context (demo_world 0 (Some ''0'')) opt_proc ''/opt/bin/tool'' (Some [''tool''])
       (Some (environ opt_proc)) \<and>
   sent (execvp (demo_world 0 (Some ''0'')) opt_proc ''tool'' (Some [''tool''])) =
     Some (write_lines [''ROUTE'', ''CONTEXT:contextA'', ''CMD:/opt/bin/tool'', ''ARG:tool'',
       ''ENV:SANDBOX_ROUTE_TO_CONTEXT=contextA'', ''ENV:PATH=/usr/bin:/opt/bin'', ''END'']) \<and>
   execvp (demo_world (- 1) None) opt_proc ''sh'' (Some [''sh'']) =
     route_to_context (demo_world (- 1) None) opt_proc ''sh'' (Some [''sh''])
       (Some (environ opt_proc)) \<and>
   outcome (execvp (demo_world (- 1) None) opt_proc ''sh'' (Some [''sh''])) =
     Returned (- 1) 2"
proof -
  note t = execvp_first_match [OF opt_proc_target opt_proc_path]
  have l: "spec_request_lines ''contextA'' ''/opt/bin/tool'' (Some [''tool''])
        (Some (environ opt_proc)) =
      [''ROUTE'', ''CONTEXT:contextA'', ''CMD:/opt/bin/tool'', ''ARG:tool'',
       ''ENV:SANDBOX_ROUTE_TO_CONTEXT=contextA'', ''ENV:PATH=/usr/bin:/opt/bin'', ''END'']"
    by (simp add: spec_request_lines_def opt_proc_kept)
  have f: "fullpath ''/usr/bin'' ''tool'' = ''/usr/bin/tool''"
    "fullpath ''/opt/bin'' ''tool'' = ''/opt/bin/tool''"
    "fullpath ''/usr/bin'' ''sh'' = ''/usr/bin/sh''" "fullpath ''/opt/bin'' ''sh'' = ''/opt/bin/sh''"
    by (simp_all add: fullpath_def)
  from t [of "demo_world 0 (Some ''0'')" "''tool''" "Some [''tool'']", THEN conjunct1, rule_format,
      of "[''/usr/bin'']" "''/opt/bin''" "[]"]
  have "execvp (demo_world 0 (Some ''0'')) opt_proc ''tool'' (Some [''tool'']) =
     route_to_context (demo_world 0 (Some ''0'')) opt_proc ''/opt/bin/tool'' (Some [''tool''])
       (Some (environ opt_proc)) \<and>
     sent (execvp (demo_world 0 (Some ''0'')) opt_proc ''tool'' (Some [''tool''])) =
     Some (write_lines [''ROUTE'', ''CONTEXT:contextA'', ''CMD:/opt/bin/tool'', ''ARG:tool'',
       ''ENV:SANDBOX_ROUTE_TO_CONTEXT=contextA'', ''ENV:PATH=/usr/bin:/opt/bin'', ''END''])"
    by (auto simp: opt_dirs f l demo_world_simps demo_programs_def)
  moreover
  from t [of "demo_world (- 1) None" "''sh''" "Some [''sh'']", THEN conjunct2]
  have "execvp (demo_world (- 1) None) opt_proc ''sh'' (Some [''sh'']) =
     route_to_context (demo_world (- 1) None) opt_proc ''sh'' (Some [''sh''])
       (Some (environ opt_proc)) \<and>
     outcome (execvp (demo_world (- 1) None) opt_proc ''sh'' (Some [''sh''])) =
       Returned (- 1) 2"
    by (auto simp: opt_dirs f demo_world_simps demo_programs_def)
  ultimately show ?thesis
    by (auto simp: opt_proc_path opt_dirs demo_world_simps demo_programs_def)
qed

text \<open>
  C6. The routing policy is a presence check: \<open>should_route\<close> is true exactly when some
  entry of \<open>environ\<close> begins with \<open>SANDBOX_ROUTE_TO_CONTEXT=\<close>, whatever follows. When no
  entry does, each intercepted primitive is the real primitive on the caller's
  arguments: the same outcome (value and \<open>errno\<close>, or process replacement), nothing
  written to the daemon, and for \<open>popen\<close> the same state.
\<close>

theorem unset_is_transparent:
  "should_route s = (\<exists>e \<in> set (environ s). take 25 e = ''SANDBOX_ROUTE_TO_CONTEXT='') \<and>
   ((\<forall>e \<in> set (environ s). take 25 e \<noteq> ''SANDBOX_ROUTE_TO_CONTEXT='') \<longrightarrow>
      execve w s pathname argv envp =
        \<lparr>sent = None, outcome = real_execve w pathname argv envp\<rparr> \<and>
      execvp w s file argv = \<lparr>sent = None, outcome = real_execvp w s file argv\<rparr> \<and>
      system w s command = \<lparr>sent = None, outcome = real_system w s command\<rparr> \<and>
      popen w s cmd type = real_popen w s cmd type)"
proof -
  have "\<And>e. (take (length ''SANDBOX_ROUTE_TO_CONTEXT'' + 1) e = ''SANDBOX_ROUTE_TO_CONTEXT'' @ ''='')
          = (take 25 e = ''SANDBOX_ROUTE_TO_CONTEXT='')"
    by (simp add: eval_nat_numeral)
  then have "(getenv s ''SANDBOX_ROUTE_TO_CONTEXT'' = None) =
      (\<forall>e \<in> set (environ s). take 25 e \<noteq> ''SANDBOX_ROUTE_TO_CONTEXT='')"
    by (simp only: getenv_None)
  then have "should_route s = (\<exists>e \<in> set (environ s). take 25 e = ''SANDBOX_ROUTE_TO_CONTEXT='')"
    by (auto simp: should_route_def)
  then show ?thesis by (auto simp: execve_def execvp_def system_def popen_def)
qed

theorem unset_is_transparent_witness:
  "\<not> should_route plain_proc \<and>
   outcome (execve (demo_world 0 (Some ''0'')) plain_proc ''/usr/bin/ls'' (Some [''ls'']) None) =
     Replaced ''/usr/bin/ls'' (Some [''ls'']) None \<and>
   outcome (system (demo_world 0 (Some ''0'')) plain_proc (Some ''echo hi'')) = Returned 0 0 \<and>
   popen (demo_world 0 (Some ''0'')) plain_proc ''ls'' ''r'' = (Returned (Some 3) 0, plain_proc)"
proof -
  have "\<forall>e \<in> set (environ plain_proc). take 25 e \<noteq> ''SANDBOX_ROUTE_TO_CONTEXT=''"
    by (simp add: plain_proc_def)
  with unset_is_transparent [of plain_proc "demo_world 0 (Some ''0'')" "''/usr/bin/ls''"
      "Some [''ls'']" None "''ls''" "Some ''echo hi''" "''ls''" "''r''"]
  show ?thesis
    by (auto simp: demo_world_simps demo_programs_def)
qed

text \<open>
  C7. Whenever \<open>route_to_context\<close> gets a connection, what it writes is exactly: the
  line \<open>ROUTE\<close>, the \<open>CONTEXT:\<close> line, the \<open>CMD:\<close> line, one \<open>ARG:\<close> line per
  argument in the caller's order (\<open>argv[0]\<close> included), one \<open>ENV:\<close> line per entry of
  \<open>envp\<close> that passes the filter, in order, and the line \<open>END\<close>. A NULL or empty
  vector contributes no line. Nothing is written when the variable is absent or no
  connection is made.
\<close>

theorem request_line_order:
  "sent (route_to_context w s pathname argv envp) =
     (case getenv s ''SANDBOX_ROUTE_TO_CONTEXT'' of
        None \<Rightarrow> None
      | Some target \<Rightarrow>
          if sys_socket w < 0 \<or> sys_connect w < 0 then None
          else Some (write_lines (spec_request_lines target pathname argv envp)))"
  by (simp add: sent_route_to_context request_lines split: option.split)

text \<open>
  C8. A routed \<open>popen\<close> runs the real \<open>popen\<close> while \<open>environ\<close> is the filtered copy,
  and then sets \<open>environ\<close> back to what it was on entry, whatever the real \<open>popen\<close>
  returned or did to \<open>environ\<close>: the state after the call is the state before it.
\<close>

theorem popen_restores_environ:
  assumes "should_route s"
  shows "snd (popen w s command type) = s \<and>
         environ (snd (popen w s command type)) = environ s \<and>
         fst (popen w s command type) =
           fst (real_popen w (s\<lparr>environ := popen_filter 0 (environ s)\<rparr>) command type)"
  using assms by (simp add: popen_routed)

theorem popen_restores_environ_witness:
  "should_route routed_proc \<and>
   environ (snd (popen (demo_world 0 None) routed_proc ''ls'' ''r'')) =
     [''SANDBOX_ROUTE_TO_CONTEXT=contextA'', ''LD_PRELOAD=/lib/router.so'',
      ''PATH=/usr/bin:/bin'', ''HOME=/root''] \<and>
   fst (popen (demo_world 0 None) routed_proc ''ls'' ''r'') = Returned (Some 3) 0"
  using popen_restores_environ [OF routed_proc_routes, of "demo_world 0 None" "''ls''" "''r''"]
  by (simp add: routed_proc_routes demo_world_def) (simp add: routed_proc_def)

text \<open>
  C9. The environment a routed \<open>popen\<close> installs is the first 1023 entries of
  \<open>environ\<close> that pass the filter, in order: it never has more than 1023 entries, and
  kept entries after the 1023rd are dropped.
\<close>

theorem popen_env_capped:
  assumes "should_route s"
  shows "fst (popen w s command type) =
           fst (real_popen w (s\<lparr>environ := take 1023 (filter env_kept (environ s))\<rparr>)
                  command type) \<and>
         popen_filter 0 (environ s) = take 1023 (filter env_kept (environ s)) \<and>
         length (popen_filter 0 (environ s)) \<le> 1023"
  using assms by (simp add: popen_routed popen_filter_take)

theorem popen_env_capped_witness:
  "should_route crowded_proc \<and>
   length (environ crowded_proc) = 1025 \<and>
   filter env_kept (environ crowded_proc) = replicate 1023 ''A=1'' @ [''Z=26''] \<and>
   popen_filter 0 (environ crowded_proc) = replicate 1023 ''A=1'' \<and>
   fst (popen (demo_world 0 None) crowded_proc ''ls'' ''r'') = Returned (Some 3) 0"
  using popen_env_capped [OF crowded_proc_routes, of "demo_world 0 None" "''ls''" "''r''"]
  by (simp add: crowded_proc_routes demo_world_def) (simp add: crowded_proc_def env_kept_iff)

text \<open>
  C10. A routed \<open>execvp\<close> searches PATH whatever the file argument looks like, a name with
  a slash included: it takes the directories of PATH in order, probes what \<open>snprintf\<close>
  leaves in \<open>fullpath\<close> for \<open>dir/file\<close> with \<open>access(_, X_OK)\<close>, and routes under the
  first one accepted; only when none is accepted does it route the file argument as
  given. \<open>fullpath\<close> is \<open>dir/file\<close> itself whenever that fits the 4096-byte buffer.
\<close>

theorem execvp_always_searches:
  assumes "should_route s"
  shows "execvp w s file argv =
     (case find (\<lambda>dir. sys_access w (fullpath dir file) = 0) (path_dirs (search_path s)) of
        Some dir \<Rightarrow> route_to_context w s (fullpath dir file) argv (Some (environ s))
      | None \<Rightarrow> route_to_context w s file argv (Some (environ s))) \<and>
     (\<forall>dir. length dir + length file < 4095 \<longrightarrow> fullpath dir file = dir @ ''/'' @ file)"
  using assms by (simp add: execvp_routed path_search_find fullpath_fits split: option.split)

theorem execvp_always_searches_witness:
  "CHR ''/'' \<in> set ''bin/ls'' \<and>
   execvp (demo_world (- 1) None) slash_proc ''bin/ls'' (Some [''ls'']) =
     route_to_context (demo_world (- 1) None) slash_proc ''/usr/bin/ls'' (Some [''ls''])
       (Some (environ slash_proc)) \<and>
   execvp (demo_world (- 1) None) slash_proc ''bin/cat'' (Some [''cat'']) =
     route_to_context (demo_world (- 1) None) slash_proc ''bin/cat'' (Some [''cat''])
       (Some (environ slash_proc))"
  using execvp_always_searches [OF slash_proc_routes, of "demo_world (- 1) None" "''bin/ls''" "Some [''ls'']"]
    execvp_always_searches [OF slash_proc_routes, of "demo_world (- 1) None" "''bin/cat''" "Some [''cat'']"]
  by (simp add: slash_proc_path slash_dirs fullpath_def demo_world_def demo_programs_def)

end
